theory Spec2Isabelle
  imports
    Complex_Main
    "HOL-Library.Char_ord"
    "HOL-Library.List_Lexorder"
    "HOL-Library.Product_Lexorder"
    "HOL-Library.Sublist"
begin

section \<open>Errors and their messages\<close>

text \<open>
  The Python sources build their error messages with f-strings. A message is kept as the
  list of its pieces: the literal text of the f-string and the interpolated values, each
  value tagged with the way it is formatted. Python compares \<open>str\<close> values by code point,
  which on \<open>string\<close> is the lexicographic order of \<open>List_Lexorder\<close> over \<open>Char_ord\<close>.
\<close>

datatype seg =
    Lit string
  | FmtStr string
  | FmtInt int
  | FmtFloat2 real
  | FmtNaN
  | FmtSet "string set"

type_synonym message = "seg list"

datatype error =
    ValueError message
  | SpatialImputationValidationError message
  | StopIteration
  | RuntimeError message
  | KeyError string
  | IndexError
  | FileNotFoundError
  | ShapeError
  | ColumnNotFoundError string
  | DuplicateError string
  | JoinKeyError

definition ebind :: "error + 'a \<Rightarrow> ('a \<Rightarrow> error + 'b) \<Rightarrow> error + 'b" where
  "ebind m f = (case m of Inl e \<Rightarrow> Inl e | Inr x \<Rightarrow> f x)"

text \<open>
  The results of \<open>executor.map\<close> are read from a generator. A \<open>StopIteration\<close> that a
  task raised leaves that generator as \<open>RuntimeError\<close>; every other exception of a task
  leaves it unchanged.
\<close>

definition from_pool :: "error + 'a \<Rightarrow> error + 'a" where
  "from_pool r =
     (case r of
        Inl StopIteration \<Rightarrow> Inl (RuntimeError [Lit ''generator raised StopIteration''])
      | Inl e \<Rightarrow> Inl e
      | Inr x \<Rightarrow> Inr x)"


definition msg_contains :: "string \<Rightarrow> message \<Rightarrow> bool" where
  "msg_contains t m = (\<exists>s. Lit s \<in> set m \<and> sublist t s)"

section \<open>Months and their textual form\<close>

text \<open>
  An \<open>Arrow\<close> value that stands for a month: the first instant of the month in UTC. Only
  the calendar fields are kept. \<open>digits\<close> is Python's \<open>str\<close> on a non-negative integer,
  \<open>zfill\<close> the zero padding of the format specs \<open>04d\<close> and \<open>02d\<close> that Arrow uses for the
  tokens \<open>YYYY\<close> and \<open>MM\<close>.
\<close>

record arrow =
  arrow_year :: nat
  arrow_month :: nat

definition digit_char :: "nat \<Rightarrow> char" where
  "digit_char d = char_of (48 + d)"

fun digits :: "nat \<Rightarrow> string" where
  "digits n = (if n < 10 then [digit_char n] else digits (n div 10) @ [digit_char (n mod 10)])"

declare digits.simps [simp del]

definition zfill :: "nat \<Rightarrow> string \<Rightarrow> string" where
  "zfill w s = replicate (w - length s) (CHR ''0'') @ s"

definition month_format :: "arrow \<Rightarrow> string" where
  "month_format m = zfill 4 (digits (arrow_year m)) @ ''-'' @ zfill 2 (digits (arrow_month m))"

section \<open>Partition references and upload results\<close>

text \<open>
  Modelled from the spec: \<open>HivePath\<close>, \<open>DataCompleteness\<close>, \<open>MissingDataHeuristic\<close>,
  \<open>UploadResult\<close> and \<open>PipelineConfig\<close> are declared outside the files at hand. A partition
  reference is the ordered list of its \<open>key=value\<close> segments and its metadata the dictionary
  read off that list; completeness is \<open>COMPLETE\<close> or \<open>EMPTY\<close>, with data available exactly
  for \<open>COMPLETE\<close>; the missing-data policy is strict or copy-latest-available-before. An
  upload result keeps the fields that the planner reads:
  \<open>result.pipeline_config.hive_path\<close>, \<open>result.completeness\<close> and
  \<open>result.pipeline_config.consumer_behaviour.missing_data_heuristic\<close>.
\<close>

type_synonym hive_path = "(string \<times> string) list"

definition metadata :: "hive_path \<Rightarrow> string \<Rightarrow> string option" where
  "metadata p = map_of p"

text \<open>
  Modelled from the spec: the values of a partition reference. Every reference that the
  pipelines build has the form \<open>k1=v1/k2=v2/...\<close> with values such as \<open>india\<close>, \<open>static\<close>,
  a year or a month id; no segment has an empty value.
\<close>

definition wf_hive_path :: "hive_path \<Rightarrow> bool" where
  "wf_hive_path p = list_all (\<lambda>kv. snd kv \<noteq> []) p"

datatype data_completeness = COMPLETE | EMPTY


datatype missing_data_heuristic = STRICT | COPY_LATEST_AVAILABLE_BEFORE

record upload_result =
  hive_path :: hive_path
  completeness :: data_completeness
  heuristic :: missing_data_heuristic

section \<open>The combine planner\<close>

text \<open>Python truthiness of \<open>metadata.get(k)\<close>: the key is there and its value is not \<open>""\<close>.\<close>

definition truthy :: "string option \<Rightarrow> bool" where
  "truthy v = (case v of None \<Rightarrow> False | Some s \<Rightarrow> s \<noteq> [])"

definition dataset_key :: "upload_result list \<Rightarrow> error + string" where
  "dataset_key results =
     (if list_all (\<lambda>r. metadata (hive_path r) ''type'' = Some ''static'') results
      then Inr ''type''
      else if list_all (\<lambda>r. truthy (metadata (hive_path r) ''month'')) results
      then Inr ''month''
      else if list_all (\<lambda>r. truthy (metadata (hive_path r) ''year'')) results
      then Inr ''year''
      else Inl (ValueError
        [Lit ''Cannot determine dataset key for results. All results must have the same metadata key for 'type', 'month', or 'year'.'']))"








section \<open>Calendar arithmetic\<close>

text \<open>
  The day arithmetic of Python's \<open>datetime\<close>, on which Arrow rests: the proleptic Gregorian
  ordinal of a date, instants as microseconds, and \<open>timedelta.days\<close> as the floor of a
  difference of instants divided by the length of a day. Years run from 1 to 9999;
  moving past December 9999 raises \<open>ValueError\<close>.
\<close>

definition valid_month :: "arrow \<Rightarrow> bool" where
  "valid_month m =
     (1 \<le> arrow_year m \<and> arrow_year m \<le> 9999 \<and> 1 \<le> arrow_month m \<and> arrow_month m \<le> 12)"

definition is_leap :: "nat \<Rightarrow> bool" where
  "is_leap y = (y mod 4 = 0 \<and> (y mod 100 \<noteq> 0 \<or> y mod 400 = 0))"

definition days_before_year :: "nat \<Rightarrow> int" where
  "days_before_year y =
     (let p = int y - 1 in p * 365 + p div 4 - p div 100 + p div 400)"

definition days_before_month :: "nat \<Rightarrow> nat \<Rightarrow> int" where
  "days_before_month y m =
     [0, 31, 59, 90, 120, 151, 181, 212, 243, 273, 304, 334] ! (m - 1)
       + (if m > 2 \<and> is_leap y then 1 else 0)"

definition ymd2ord :: "nat \<Rightarrow> nat \<Rightarrow> nat \<Rightarrow> int" where
  "ymd2ord y m d = days_before_year y + days_before_month y m + int d"

definition us_per_day :: int where
  "us_per_day = 86400000000"

definition timedelta_days :: "int \<Rightarrow> int" where
  "timedelta_days us = us div us_per_day"

text \<open>The instant at which a month starts, and \<open>shift(months=1)\<close> on a month.\<close>

definition month_start :: "arrow \<Rightarrow> int" where
  "month_start m = ymd2ord (arrow_year m) (arrow_month m) 1 * us_per_day"

definition shift_one_month :: "arrow \<Rightarrow> error + arrow" where
  "shift_one_month m =
     (if arrow_month m = 12
      then (if arrow_year m + 1 > 9999
            then Inl (ValueError [Lit ''year '', FmtInt (int (arrow_year m) + 1), Lit '' is out of range''])
            else Inr \<lparr>arrow_year = arrow_year m + 1, arrow_month = 1\<rparr>)
      else Inr \<lparr>arrow_year = arrow_year m, arrow_month = arrow_month m + 1\<rparr>)"

text \<open>
  \<open>floor("month")\<close> of a month is its start; \<open>ceil("month")\<close> is the floor plus one month
  minus one microsecond.
\<close>

definition floor_month :: "arrow \<Rightarrow> int" where
  "floor_month m = month_start m"

definition ceil_month :: "arrow \<Rightarrow> error + int" where
  "ceil_month m = ebind (shift_one_month m) (\<lambda>n. Inr (month_start n - 1))"

text \<open>
  \<open>CombinePlan.days_in_month\<close> and \<open>CombinePlan.expected_rows\<close>. The constant
  \<open>VALID_COUNTRIES["india"]\<close>, the fixed number of grid cells, is declared outside the files
  at hand and is the parameter \<open>grid_cells\<close>.
\<close>

definition days_in_month :: "arrow \<Rightarrow> error + int" where
  "days_in_month m = ebind (ceil_month m) (\<lambda>c. Inr (timedelta_days (c - floor_month m) + 1))"

definition expected_rows :: "int \<Rightarrow> arrow \<Rightarrow> error + int" where
  "expected_rows grid_cells m = ebind (days_in_month m) (\<lambda>d. Inr (grid_cells * d))"

text \<open>The length of a month as the calendar defines it.\<close>

definition calendar_days :: "nat \<Rightarrow> nat \<Rightarrow> int" where
  "calendar_days y m =
     (if m = 2 then (if is_leap y then 29 else 28)
      else if m = 4 \<or> m = 6 \<or> m = 9 \<or> m = 11 then 30
      else 31)"

text \<open>
  \<open>Arrow.strptime(s, "%Y-%m")\<close>, which is \<open>datetime.strptime\<close>: the string must start with
  four digits, a hyphen, and a month matched by the regular expression
  \<open>1[0-2]|0[1-9]|[1-9]\<close> (the alternatives tried in this order); text left after the match
  is an error, and so is the year 0. All of them are \<open>ValueError\<close>.
\<close>

definition is_digit :: "char \<Rightarrow> bool" where
  "is_digit c = (CHR ''0'' \<le> c \<and> c \<le> CHR ''9'')"

definition digit_val :: "char \<Rightarrow> nat" where
  "digit_val c = of_char c - 48"

definition strptime_error :: "string \<Rightarrow> error" where
  "strptime_error s =
     ValueError [Lit ''time data '', FmtStr s, Lit '' does not match format '', FmtStr ''%Y-%m'']"

definition year_of_digits :: "char \<Rightarrow> char \<Rightarrow> char \<Rightarrow> char \<Rightarrow> nat" where
  "year_of_digits a b c d = 1000 * digit_val a + 100 * digit_val b + 10 * digit_val c + digit_val d"

fun match_month :: "string \<Rightarrow> (nat \<times> string) option" where
  "match_month (m1 # m2 # rest) =
     (if m1 = CHR ''1'' \<and> CHR ''0'' \<le> m2 \<and> m2 \<le> CHR ''2''
      then Some (10 * digit_val m1 + digit_val m2, rest)
      else if m1 = CHR ''0'' \<and> CHR ''1'' \<le> m2 \<and> m2 \<le> CHR ''9''
      then Some (10 * digit_val m1 + digit_val m2, rest)
      else if CHR ''1'' \<le> m1 \<and> m1 \<le> CHR ''9''
      then Some (digit_val m1, m2 # rest)
      else None)"
| "match_month [m1] =
     (if CHR ''1'' \<le> m1 \<and> m1 \<le> CHR ''9'' then Some (digit_val m1, []) else None)"
| "match_month [] = None"

fun strptime_Ym :: "string \<Rightarrow> error + arrow" where
  "strptime_Ym (a # b # c # d # h # rest) =
     (if is_digit a \<and> is_digit b \<and> is_digit c \<and> is_digit d \<and> h = CHR ''-''
      then (case match_month rest of
              None \<Rightarrow> Inl (strptime_error (a # b # c # d # h # rest))
            | Some (mo, remains) \<Rightarrow>
                if remains \<noteq> []
                then Inl (ValueError [Lit ''unconverted data remains: '', FmtStr remains])
                else if year_of_digits a b c d = 0
                then Inl (ValueError [Lit ''year '', FmtInt 0, Lit '' is out of range''])
                else Inr \<lparr>arrow_year = year_of_digits a b c d, arrow_month = mo\<rparr>)
      else Inl (strptime_error (a # b # c # d # h # rest)))"
| "strptime_Ym s = Inl (strptime_error s)"

text \<open>
  \<open>SpatialImputationManager._days_in_month\<close>: the month id is parsed, moved one month on
  (\<open>replace(day=1)\<close> changes nothing, the parsed instant being the first of its month), and
  the days of the difference are read.
\<close>

definition days_in_month_id :: "string \<Rightarrow> error + int" where
  "days_in_month_id s =
     ebind (strptime_Ym s) (\<lambda>month_as_arrow.
     ebind (shift_one_month month_as_arrow) (\<lambda>month_end.
       Inr (timedelta_days (month_start month_end - month_start month_as_arrow))))"

section \<open>Data frames and the storage gateway\<close>

text \<open>
  A polars \<open>DataFrame\<close>: its column names in order and its rows, each row holding one cell
  per column. A frame is well formed when its column names are distinct and every row has
  one cell per column.
\<close>

datatype cell = Null | IntV int | StrV string | NumV real

record frame =
  columns :: "string list"
  rows :: "cell list list"

definition height :: "frame \<Rightarrow> int" where
  "height f = int (length (rows f))"

definition wf_frame :: "frame \<Rightarrow> bool" where
  "wf_frame f = (distinct (columns f) \<and> (\<forall>r\<in>set (rows f). length r = length (columns f)))"

definition cell_of :: "string list \<Rightarrow> cell list \<Rightarrow> string \<Rightarrow> cell option" where
  "cell_of cols r c = map_of (zip cols r) c"

definition keep_cells :: "(string \<Rightarrow> bool) \<Rightarrow> string list \<Rightarrow> cell list \<Rightarrow> cell list" where
  "keep_cells P cols r = map snd (filter (\<lambda>cv. P (fst cv)) (zip cols r))"

text \<open>\<open>DataFrame.drop\<close> of a set of columns that the frame has.\<close>

definition drop_columns :: "string set \<Rightarrow> frame \<Rightarrow> frame" where
  "drop_columns cs f =
     \<lparr>columns = filter (\<lambda>c. c \<notin> cs) (columns f),
      rows = map (keep_cells (\<lambda>c. c \<notin> cs) (columns f)) (rows f)\<rparr>"

text \<open>
  \<open>DataFrame.join(other, on=keys, how="full", coalesce=True)\<close>. Two rows match when their
  key cells are equal and none of them is null. Every left row is paired with each of its
  matches, or padded with nulls when it has none; the right rows without a match follow,
  with the key columns taken from the right row and nulls in the other left columns. The
  result has the left columns followed by the right columns that are not keys. Polars
  does not promise an order of the rows of a full join, and the order written here need
  not be the one it produces: the rows are to be read as a collection. Frames carry no
  column types, so a join whose key columns differ in type, which polars rejects, is not
  described. A join on no key at all is rejected.
\<close>

definition key_of :: "string list \<Rightarrow> string list \<Rightarrow> cell list \<Rightarrow> cell option list" where
  "key_of cols keys r = map (cell_of cols r) keys"

definition keys_match :: "cell option list \<Rightarrow> cell option list \<Rightarrow> bool" where
  "keys_match k1 k2 = (k1 = k2 \<and> Some Null \<notin> set k1 \<and> None \<notin> set k1)"

definition matches_of :: "frame \<Rightarrow> frame \<Rightarrow> string list \<Rightarrow> cell list \<Rightarrow> cell list list" where
  "matches_of l r keys lr =
     filter (\<lambda>rr. keys_match (key_of (columns l) keys lr) (key_of (columns r) keys rr)) (rows r)"

definition joined_left :: "frame \<Rightarrow> frame \<Rightarrow> string list \<Rightarrow> cell list \<Rightarrow> cell list list" where
  "joined_left l r keys lr =
     (let ms = matches_of l r keys lr in
      if ms = []
      then [lr @ replicate (length (filter (\<lambda>c. c \<notin> set keys) (columns r))) Null]
      else map (\<lambda>rr. lr @ keep_cells (\<lambda>c. c \<notin> set keys) (columns r) rr) ms)"

definition unmatched_right :: "frame \<Rightarrow> frame \<Rightarrow> string list \<Rightarrow> cell list list" where
  "unmatched_right l r keys =
     filter (\<lambda>rr. \<not> (\<exists>lr\<in>set (rows l).
        keys_match (key_of (columns l) keys lr) (key_of (columns r) keys rr))) (rows r)"

definition right_only_row :: "frame \<Rightarrow> frame \<Rightarrow> string list \<Rightarrow> cell list \<Rightarrow> cell list" where
  "right_only_row l r keys rr =
     map (\<lambda>c. if c \<in> set keys
               then (case cell_of (columns r) rr c of Some v \<Rightarrow> v | None \<Rightarrow> Null)
               else Null) (columns l)
       @ keep_cells (\<lambda>c. c \<notin> set keys) (columns r) rr"

definition full_join :: "frame \<Rightarrow> frame \<Rightarrow> string list \<Rightarrow> error + frame" where
  "full_join l r keys =
     (if keys = [] then Inl JoinKeyError
      else Inr \<lparr>columns = columns l @ filter (\<lambda>c. c \<notin> set keys) (columns r),
                rows = concat (map (joined_left l r keys) (rows l))
                         @ map (right_only_row l r keys) (unmatched_right l r keys)\<rparr>)"

text \<open>
  Modelled from the spec: \<open>CombinedStorage\<close> and \<open>DataArtifactRef\<close> are declared outside the
  files at hand. The storage gateway maps partition references to the frames written
  there; an existence check, a read of the frame, a read of its metadata (row count and
  column names, which are those of the frame last written), and a write that replaces the
  partition. Reading a partition that does not exist fails. A data artifact reference names
  a stage and an optional sub-artifact, and its partition for a month is
  \<open>stage=NAME/month=YYYY-MM\<close>, with \<open>NAME\<close> the stage, followed by \<open>+\<close> and the sub-artifact
  when there is one.
\<close>

type_synonym storage = "hive_path \<Rightarrow> frame option"

record file_metadata =
  num_rows :: int
  schema_names :: "string list"

definition does_dataset_exist :: "storage \<Rightarrow> hive_path \<Rightarrow> bool" where
  "does_dataset_exist S p = (S p \<noteq> None)"

definition read_dataframe :: "storage \<Rightarrow> hive_path \<Rightarrow> error + frame" where
  "read_dataframe S p = (case S p of None \<Rightarrow> Inl FileNotFoundError | Some f \<Rightarrow> Inr f)"

definition read_dataframe_metadata :: "storage \<Rightarrow> hive_path \<Rightarrow> error + file_metadata" where
  "read_dataframe_metadata S p =
     (case S p of
        None \<Rightarrow> Inl FileNotFoundError
      | Some f \<Rightarrow> Inr \<lparr>num_rows = height f, schema_names = columns f\<rparr>)"

definition write_to_destination :: "storage \<Rightarrow> frame \<Rightarrow> hive_path \<Rightarrow> storage" where
  "write_to_destination S f p = S(p \<mapsto> f)"

record data_artifact_ref =
  stage :: string
  sub_artifact :: "string option"

definition for_month :: "data_artifact_ref \<Rightarrow> string \<Rightarrow> hive_path" where
  "for_month a month_id =
     [(''stage'', stage a @ (case sub_artifact a of None \<Rightarrow> [] | Some s \<Rightarrow> ''+'' @ s)),
      (''month'', month_id)]"

section \<open>The recombiner\<close>

text \<open>
  \<open>Recombiner._combine_all\<close>. The identifier columns are \<open>grid_id\<close> and \<open>date\<close>. The loop
  over \<open>stage_dfs[1:]\<close> is \<open>combine_fold\<close>, whose first argument after the flag is the
  accumulator \<open>combined_df\<close>; \<open>stage_dfs[0]\<close> on an empty list raises \<open>IndexError\<close>.
\<close>

definition id_columns :: "string set" where
  "id_columns = {''grid_id'', ''date''}"

definition shared_columns :: "frame \<Rightarrow> frame \<Rightarrow> string set" where
  "shared_columns combined_df df = (set (columns combined_df) \<inter> set (columns df)) - id_columns"

definition shared_id_columns :: "frame \<Rightarrow> frame \<Rightarrow> string list" where
  "shared_id_columns combined_df df =
     filter (\<lambda>c. c \<in> set (columns combined_df) \<and> c \<in> set (columns df)) [''grid_id'', ''date'']"

definition shared_columns_error :: "string set \<Rightarrow> error" where
  "shared_columns_error shared =
     ValueError [Lit ''Shared columns detected: '', FmtSet shared,
                 Lit ''. Set overwrite_columns=True to overwrite them.'']"

fun combine_fold :: "bool \<Rightarrow> frame \<Rightarrow> frame list \<Rightarrow> error + frame" where
  "combine_fold overwrite_columns combined_df [] = Inr combined_df"
| "combine_fold overwrite_columns combined_df (df # dfs) =
     ebind (if shared_columns combined_df df \<noteq> {}
            then (if overwrite_columns
                  then Inr (drop_columns (shared_columns combined_df df) combined_df)
                  else Inl (shared_columns_error (shared_columns combined_df df)))
            else Inr combined_df) (\<lambda>left.
     ebind (full_join left df (shared_id_columns left df)) (\<lambda>joined.
       combine_fold overwrite_columns joined dfs))"

definition combine_all :: "bool \<Rightarrow> frame list \<Rightarrow> error + frame" where
  "combine_all overwrite_columns stage_dfs =
     (case stage_dfs of
        [] \<Rightarrow> Inl IndexError
      | df0 # dfs \<Rightarrow> combine_fold overwrite_columns df0 dfs)"

text \<open>
  \<open>Recombiner._validate_combined\<close>: the expected columns are collected from the metadata of
  every stage, the expected row count is that of the first stage, and the output
  partition is compared with both.
\<close>

fun collect_expected_columns ::
  "storage \<Rightarrow> data_artifact_ref list \<Rightarrow> string \<Rightarrow> string set \<Rightarrow> error + string set" where
  "collect_expected_columns S [] month_short acc = Inr acc"
| "collect_expected_columns S (st # stages) month_short acc =
     ebind (read_dataframe_metadata S (for_month st month_short)) (\<lambda>md.
       collect_expected_columns S stages month_short (acc \<union> set (schema_names md)))"

definition first_stage :: "data_artifact_ref list \<Rightarrow> error + data_artifact_ref" where
  "first_stage stages = (case stages of [] \<Rightarrow> Inl StopIteration | st # _ \<Rightarrow> Inr st)"

definition validate_combined ::
  "storage \<Rightarrow> data_artifact_ref \<Rightarrow> data_artifact_ref list \<Rightarrow> arrow \<Rightarrow> error + unit" where
  "validate_combined S output stages m =
     (let month_short = month_format m in
      ebind (collect_expected_columns S stages month_short {}) (\<lambda>expected_columns.
      ebind (first_stage stages) (\<lambda>st0.
      ebind (read_dataframe_metadata S (for_month st0 month_short)) (\<lambda>first_md.
      ebind (read_dataframe_metadata S (for_month output month_short)) (\<lambda>combined_md.
        if num_rows combined_md \<noteq> num_rows first_md
        then Inl (ValueError
               [Lit ''Expected '', FmtInt (num_rows first_md),
                Lit '' rows in the recombined result for month '', FmtStr month_short,
                Lit '', but found '', FmtInt (num_rows combined_md), Lit '' rows.''])
        else if expected_columns - set (schema_names combined_md) \<noteq> {}
        then Inl (ValueError
               [Lit ''Expected columns '', FmtSet expected_columns,
                Lit '' in the final combined result, but '',
                FmtSet (expected_columns - set (schema_names combined_md)),
                Lit '' were missing.''])
        else Inr ())))))"

text \<open>
  \<open>Recombiner._needs_recombining\<close>: only \<open>ValueError\<close> is caught; any other exception of
  the validation leaves the function.
\<close>

definition needs_recombining ::
  "storage \<Rightarrow> data_artifact_ref \<Rightarrow> data_artifact_ref list \<Rightarrow> arrow \<Rightarrow> error + bool" where
  "needs_recombining S output stages m =
     (if \<not> does_dataset_exist S (for_month output (month_format m)) then Inr True
      else (case validate_combined S output stages m of
              Inl (ValueError msg) \<Rightarrow> Inr True
            | Inl e \<Rightarrow> Inl e
            | Inr u \<Rightarrow> Inr False))"

text \<open>
  The thread pools run one task per month. Their tasks are run here one after the other
  in the order of the list, and the first exception in that order is the one that leaves
  the pool, as it does when the results of \<open>executor.map\<close> are drained.
\<close>

fun months_needing ::
  "storage \<Rightarrow> data_artifact_ref \<Rightarrow> data_artifact_ref list \<Rightarrow> arrow list \<Rightarrow> error + arrow list" where
  "months_needing S output stages [] = Inr []"
| "months_needing S output stages (m # ms) =
     ebind (from_pool (needs_recombining S output stages m)) (\<lambda>needed.
     ebind (months_needing S output stages ms) (\<lambda>rest.
       Inr (if needed then m # rest else rest)))"

definition filter_months_to_update ::
  "bool \<Rightarrow> storage \<Rightarrow> data_artifact_ref \<Rightarrow> data_artifact_ref list \<Rightarrow> arrow list \<Rightarrow> error + arrow list" where
  "filter_months_to_update force_recombine S output stages months =
     (if force_recombine then Inr months else months_needing S output stages months)"

fun read_dfs_to_merge :: "storage \<Rightarrow> data_artifact_ref list \<Rightarrow> string \<Rightarrow> error + frame list" where
  "read_dfs_to_merge S [] month_short = Inr []"
| "read_dfs_to_merge S (st # stages) month_short =
     ebind (read_dataframe S (for_month st month_short)) (\<lambda>df.
     ebind (read_dfs_to_merge S stages month_short) (\<lambda>dfs. Inr (df # dfs)))"

definition process_month ::
  "bool \<Rightarrow> storage \<Rightarrow> data_artifact_ref \<Rightarrow> data_artifact_ref list \<Rightarrow> arrow \<Rightarrow> error + storage" where
  "process_month overwrite_columns S output stages m =
     ebind (read_dfs_to_merge S stages (month_format m)) (\<lambda>stage_dfs.
     ebind (combine_all overwrite_columns stage_dfs) (\<lambda>combined_df.
       Inr (write_to_destination S combined_df (for_month output (month_format m)))))"

text \<open>
  \<open>process_in_parallel\<close> returns the storage after the writes together with the list of
  the partitions written, one entry per call of \<open>write_to_destination\<close>.
\<close>

fun process_in_parallel ::
  "bool \<Rightarrow> storage \<Rightarrow> data_artifact_ref \<Rightarrow> data_artifact_ref list \<Rightarrow> arrow list
     \<Rightarrow> error + (storage \<times> hive_path list)" where
  "process_in_parallel overwrite_columns S output stages [] = Inr (S, [])"
| "process_in_parallel overwrite_columns S output stages (m # ms) =
     ebind (from_pool (process_month overwrite_columns S output stages m)) (\<lambda>S1.
     ebind (process_in_parallel overwrite_columns S1 output stages ms) (\<lambda>(S2, written).
       Inr (S2, for_month output (month_format m) # written)))"

fun validate_all ::
  "storage \<Rightarrow> data_artifact_ref \<Rightarrow> data_artifact_ref list \<Rightarrow> arrow list \<Rightarrow> error + unit" where
  "validate_all S output stages [] = Inr ()"
| "validate_all S output stages (m # ms) =
     ebind (from_pool (validate_combined S output stages m)) (\<lambda>u.
       validate_all S output stages ms)"

definition recombine ::
  "bool \<Rightarrow> bool \<Rightarrow> storage \<Rightarrow> data_artifact_ref \<Rightarrow> data_artifact_ref list \<Rightarrow> arrow list
     \<Rightarrow> error + (storage \<times> hive_path list)" where
  "recombine force_recombine overwrite_columns S output stages months =
     ebind (filter_months_to_update force_recombine S output stages months) (\<lambda>filtered_months.
     ebind (process_in_parallel overwrite_columns S output stages filtered_months) (\<lambda>(S1, written).
     ebind (validate_all S1 output stages filtered_months) (\<lambda>u.
       Inr (S1, written))))"

section \<open>The spatial imputation manager\<close>

text \<open>
  The interpolator is injected: \<open>impute\<close> is its method and \<open>selected\<close> tells which column
  names its \<open>value_column_regex_selector\<close> selects. \<open>select_imputed\<close> is the selection of
  \<open>grid_id\<close>, \<open>date\<close> and the selected columns; it fails when an identifier column is
  missing or when the selector names an identifier column a second time.
\<close>

definition select_columns :: "string list \<Rightarrow> frame \<Rightarrow> frame" where
  "select_columns cs f =
     \<lparr>columns = cs,
      rows = map (\<lambda>r. map (\<lambda>c. case cell_of (columns f) r c of Some v \<Rightarrow> v | None \<Rightarrow> Null) cs) (rows f)\<rparr>"

definition select_imputed :: "(string \<Rightarrow> bool) \<Rightarrow> frame \<Rightarrow> error + frame" where
  "select_imputed selected f =
     (if ''grid_id'' \<notin> set (columns f) then Inl (ColumnNotFoundError ''grid_id'')
      else if ''date'' \<notin> set (columns f) then Inl (ColumnNotFoundError ''date'')
      else if selected ''grid_id'' then Inl (DuplicateError ''grid_id'')
      else if selected ''date'' then Inl (DuplicateError ''date'')
      else Inr (select_columns ([''grid_id'', ''date''] @ filter selected (columns f)) f))"

definition filter_month :: "frame \<Rightarrow> string \<Rightarrow> error + frame" where
  "filter_month ds month_id =
     (if ''month'' \<notin> set (columns ds) then Inl (ColumnNotFoundError ''month'')
      else Inr \<lparr>columns = columns ds,
                rows = filter (\<lambda>r. cell_of (columns ds) r ''month'' = Some (StrV month_id)) (rows ds)\<rparr>)"

text \<open>
  \<open>process_month\<close> of \<open>_impute_all_months\<close>. The months handed to it are the month ids
  (strings), on which \<open>month.format("YYYY-MM")\<close> is \<open>str.format\<close> and returns the id itself.
\<close>

definition length_mismatch_error :: "string \<Rightarrow> int \<Rightarrow> int \<Rightarrow> error" where
  "length_mismatch_error month_id actual_length expected_length =
     ValueError [Lit ''Imputed month '', FmtStr month_id, Lit '' has length '',
                 FmtInt actual_length, Lit '', expected '', FmtInt expected_length, Lit ''.'']"

definition impute_month ::
  "(frame \<Rightarrow> frame) \<Rightarrow> (string \<Rightarrow> bool) \<Rightarrow> storage \<Rightarrow> frame \<Rightarrow> data_artifact_ref \<Rightarrow> string
     \<Rightarrow> error + storage" where
  "impute_month impute selected S ds output month_id =
     ebind (filter_month ds month_id) (\<lambda>month_df.
     ebind (select_imputed selected (impute month_df)) (\<lambda>imputed_month.
       if height imputed_month \<noteq> height month_df
       then Inl (length_mismatch_error month_id (height imputed_month) (height month_df))
       else Inr (write_to_destination S imputed_month (for_month output month_id))))"

text \<open>
  \<open>_impute_all_months\<close> hands the months to \<open>executor.map\<close> and never reads the results:
  every task runs to its end, and an exception raised by a task stays in its future.
\<close>

fun impute_all_months ::
  "(frame \<Rightarrow> frame) \<Rightarrow> (string \<Rightarrow> bool) \<Rightarrow> storage \<Rightarrow> frame \<Rightarrow> data_artifact_ref \<Rightarrow> string list
     \<Rightarrow> storage" where
  "impute_all_months impute selected S ds output [] = S"
| "impute_all_months impute selected S ds output (m # ms) =
     (case impute_month impute selected S ds output m of
        Inl e \<Rightarrow> impute_all_months impute selected S ds output ms
      | Inr S1 \<Rightarrow> impute_all_months impute selected S1 ds output ms)"

text \<open>\<open>SpatialImputationManager._validate_result\<close>, with the grid size as a parameter.\<close>

definition validate_result ::
  "int \<Rightarrow> storage \<Rightarrow> data_artifact_ref \<Rightarrow> string \<Rightarrow> string list \<Rightarrow> error + unit" where
  "validate_result grid_cells S output month_id expected_columns =
     ebind (days_in_month_id month_id) (\<lambda>days.
     ebind (read_dataframe_metadata S (for_month output month_id)) (\<lambda>md.
       if num_rows md \<noteq> days * grid_cells
       then Inl (SpatialImputationValidationError
              [Lit ''Expected '', FmtInt (days * grid_cells),
               Lit '' rows in the final imputed result for month '', FmtStr month_id,
               Lit '', but found '', FmtInt (num_rows md), Lit '' rows.''])
       else if set expected_columns - set (schema_names md) - {''month''} \<noteq> {}
       then Inl (SpatialImputationValidationError
              [Lit ''Expected columns '', FmtSet (set expected_columns),
               Lit '' in the final imputed result for month '', FmtStr month_id, Lit '', but '',
               FmtSet (set expected_columns - set (schema_names md) - {''month''}),
               Lit '' were missing.''])
       else Inr ()))"

text \<open>
  \<open>_needs_upload\<close>: only \<open>SpatialImputationValidationError\<close> is caught.
\<close>

definition needs_upload ::
  "int \<Rightarrow> storage \<Rightarrow> data_artifact_ref \<Rightarrow> string \<Rightarrow> string list \<Rightarrow> error + bool" where
  "needs_upload grid_cells S output month_id expected_columns =
     (if \<not> does_dataset_exist S (for_month output month_id) then Inr True
      else (case validate_result grid_cells S output month_id expected_columns of
              Inl (SpatialImputationValidationError msg) \<Rightarrow> Inr True
            | Inl e \<Rightarrow> Inl e
            | Inr u \<Rightarrow> Inr False))"

fun identify_months_to_upload ::
  "int \<Rightarrow> storage \<Rightarrow> data_artifact_ref \<Rightarrow> string list \<Rightarrow> string list \<Rightarrow> error + string list" where
  "identify_months_to_upload grid_cells S output expected_columns [] = Inr []"
| "identify_months_to_upload grid_cells S output expected_columns (m # ms) =
     ebind (from_pool (needs_upload grid_cells S output m expected_columns)) (\<lambda>needed.
     ebind (identify_months_to_upload grid_cells S output expected_columns ms) (\<lambda>rest.
       Inr (if needed then m # rest else rest)))"

fun validate_all_results ::
  "int \<Rightarrow> storage \<Rightarrow> data_artifact_ref \<Rightarrow> string list \<Rightarrow> string list \<Rightarrow> error + unit" where
  "validate_all_results grid_cells S output expected_columns [] = Inr ()"
| "validate_all_results grid_cells S output expected_columns (m # ms) =
     ebind (from_pool (validate_result grid_cells S output m expected_columns)) (\<lambda>u.
       validate_all_results grid_cells S output expected_columns ms)"

section \<open>Concrete inputs\<close>

text \<open>Dataset groups in the shape of those of the planner's tests.\<close>

definition monthly_group :: "upload_result list" where
  "monthly_group =
     [\<lparr>hive_path = [(''country'', ''india''), (''dataset'', ''monthly_dataset1''), (''month'', ''2022-12'')],
        completeness = COMPLETE, heuristic = STRICT\<rparr>,
      \<lparr>hive_path = [(''country'', ''india''), (''dataset'', ''monthly_dataset1''), (''month'', ''2023-01'')],
        completeness = EMPTY, heuristic = COPY_LATEST_AVAILABLE_BEFORE\<rparr>]"

definition mixed_group :: "upload_result list" where
  "mixed_group =
     [\<lparr>hive_path = [(''country'', ''india''), (''dataset'', ''d''), (''month'', ''2023-01'')],
        completeness = COMPLETE, heuristic = STRICT\<rparr>,
      \<lparr>hive_path = [(''country'', ''india''), (''dataset'', ''d''), (''year'', ''2023'')],
        completeness = COMPLETE, heuristic = STRICT\<rparr>]"

definition static_group :: "upload_result list" where
  "static_group =
     [\<lparr>hive_path = [(''country'', ''india''), (''dataset'', ''static_dataset''), (''type'', ''static'')],
        completeness = COMPLETE, heuristic = STRICT\<rparr>]"

definition year_result :: "string \<Rightarrow> data_completeness \<Rightarrow> missing_data_heuristic \<Rightarrow> upload_result" where
  "year_result y c h =
     \<lparr>hive_path = [(''country'', ''india''), (''dataset'', ''yearly_dataset''), (''year'', y)],
      completeness = c, heuristic = h\<rparr>"

definition four_year_group :: "upload_result list" where
  "four_year_group =
     [year_result ''2020'' COMPLETE STRICT,
      year_result ''2021'' EMPTY COPY_LATEST_AVAILABLE_BEFORE,
      year_result ''2022'' COMPLETE STRICT,
      year_result ''2023'' EMPTY COPY_LATEST_AVAILABLE_BEFORE]"


text \<open>Storages for the output of the spatial imputation of February 2023 on a grid of ten cells.\<close>

definition spatial_output :: data_artifact_ref where
  "spatial_output = \<lparr>stage = ''era5_spatially_imputed'', sub_artifact = None\<rparr>"

definition two_row_frame :: frame where
  "two_row_frame =
     \<lparr>columns = [''grid_id'', ''date'', ''value''],
      rows = [[IntV 1, StrV ''2023-02-01'', IntV 30], [IntV 2, StrV ''2023-02-02'', IntV 40]]\<rparr>"

definition full_february_frame :: frame where
  "full_february_frame =
     \<lparr>columns = [''grid_id'', ''date'', ''value''],
      rows = replicate 280 [IntV 1, StrV ''2023-02-01'', IntV 30]\<rparr>"

definition february_short_storage :: storage where
  "february_short_storage = Map.empty(for_month spatial_output ''2023-02'' \<mapsto> two_row_frame)"

definition february_full_storage :: storage where
  "february_full_storage = Map.empty(for_month spatial_output ''2023-02'' \<mapsto> full_february_frame)"

text \<open>The stages of the recombiner's tests.\<close>

definition stage1 :: data_artifact_ref where
  "stage1 = \<lparr>stage = ''stage1'', sub_artifact = None\<rparr>"

definition recombined_output :: data_artifact_ref where
  "recombined_output = \<lparr>stage = ''recombined_stage'', sub_artifact = None\<rparr>"

definition one_row_frame :: frame where
  "one_row_frame =
     \<lparr>columns = [''grid_id'', ''date'', ''value''],
      rows = [[IntV 1, StrV ''2023-02-01'', IntV 30]]\<rparr>"

text \<open>
  Storages holding January and February 2023: the January outputs are valid, the
  February outputs exist but have the wrong row count.
\<close>

definition half_stale_storage :: storage where
  "half_stale_storage =
     Map.empty(for_month stage1 ''2023-01'' \<mapsto> two_row_frame,
               for_month recombined_output ''2023-01'' \<mapsto> two_row_frame,
               for_month stage1 ''2023-02'' \<mapsto> two_row_frame,
               for_month recombined_output ''2023-02'' \<mapsto> one_row_frame)"

definition full_january_frame :: frame where
  "full_january_frame =
     \<lparr>columns = [''grid_id'', ''date'', ''value''],
      rows = replicate 310 [IntV 1, StrV ''2023-01-01'', IntV 30]\<rparr>"

definition half_stale_spatial_storage :: storage where
  "half_stale_spatial_storage =
     Map.empty(for_month spatial_output ''2023-01'' \<mapsto> full_january_frame,
               for_month spatial_output ''2023-02'' \<mapsto> two_row_frame)"

definition january :: arrow where
  "january = \<lparr>arrow_year = 2023, arrow_month = 1\<rparr>"

definition february :: arrow where
  "february = \<lparr>arrow_year = 2023, arrow_month = 2\<rparr>"

text \<open>The storage after the February output has been recombined from its stage.\<close>

definition repaired_storage :: storage where
  "repaired_storage = half_stale_storage(for_month recombined_output ''2023-02'' \<mapsto> two_row_frame)"

section \<open>Properties of the combine planner\<close>







lemma wf_hive_path_value:
  assumes "wf_hive_path p" "metadata p k = Some s"
  shows "s \<noteq> []"
proof -
  from assms(2) have "(k, s) \<in> set p" by (simp add: metadata_def map_of_SomeD)
  with assms(1) show ?thesis by (auto simp: wf_hive_path_def list_all_iff)
qed

lemma truthy_wf:
  assumes "wf_hive_path p"
  shows "truthy (metadata p k) = (metadata p k \<noteq> None)"
  using wf_hive_path_value[OF assms] by (cases "metadata p k") (auto simp: truthy_def)

text \<open>
  Claim C8. For a group of results whose partition references are well formed, the
  discriminator key is \<open>type\<close> when every member's metadata has \<open>type\<close> equal to \<open>static\<close>;
  otherwise \<open>month\<close> when every member's metadata has a \<open>month\<close> key; otherwise \<open>year\<close> when
  every member's metadata has a \<open>year\<close> key; and when none of the three holds for the whole
  group, determining the key fails with a \<open>ValueError\<close>.
\<close>

theorem dataset_key_resolution:
  assumes "\<forall>r\<in>set rs. wf_hive_path (hive_path r)"
  shows "dataset_key rs =
     (if \<forall>r\<in>set rs. metadata (hive_path r) ''type'' = Some ''static'' then Inr ''type''
      else if \<forall>r\<in>set rs. metadata (hive_path r) ''month'' \<noteq> None then Inr ''month''
      else if \<forall>r\<in>set rs. metadata (hive_path r) ''year'' \<noteq> None then Inr ''year''
      else Inl (ValueError
        [Lit ''Cannot determine dataset key for results. All results must have the same metadata key for 'type', 'month', or 'year'.'']))"
proof -
  have t: "\<And>k. list_all (\<lambda>r. truthy (metadata (hive_path r) k)) rs
             = (\<forall>r\<in>set rs. metadata (hive_path r) k \<noteq> None)"
    using assms by (simp add: list_all_iff truthy_wf)
  show ?thesis
    unfolding dataset_key_def t by (simp add: list_all_iff)
qed

theorem dataset_key_resolution_witness:
  "dataset_key static_group = Inr ''type'' \<and>
   dataset_key monthly_group = Inr ''month'' \<and>
   dataset_key four_year_group = Inr ''year'' \<and>
   dataset_key mixed_group = Inl (ValueError
        [Lit ''Cannot determine dataset key for results. All results must have the same metadata key for 'type', 'month', or 'year'.''])"
proof -
  have w1: "\<forall>r\<in>set static_group. wf_hive_path (hive_path r)"
    by (simp add: static_group_def wf_hive_path_def)
  have w2: "\<forall>r\<in>set monthly_group. wf_hive_path (hive_path r)"
    by (simp add: monthly_group_def wf_hive_path_def)
  have w3: "\<forall>r\<in>set four_year_group. wf_hive_path (hive_path r)"
    by (simp add: four_year_group_def year_result_def wf_hive_path_def)
  have w4: "\<forall>r\<in>set mixed_group. wf_hive_path (hive_path r)"
    by (simp add: mixed_group_def wf_hive_path_def)
  have r1: "dataset_key static_group = Inr ''type''"
    using dataset_key_resolution[OF w1] by (simp add: static_group_def metadata_def)
  have r2: "dataset_key monthly_group = Inr ''month''"
    using dataset_key_resolution[OF w2] by (simp add: monthly_group_def metadata_def)
  have r3: "dataset_key four_year_group = Inr ''year''"
    using dataset_key_resolution[OF w3] by (simp add: four_year_group_def year_result_def metadata_def)
  have r4: "dataset_key mixed_group = Inl (ValueError
        [Lit ''Cannot determine dataset key for results. All results must have the same metadata key for 'type', 'month', or 'year'.''])"
    using dataset_key_resolution[OF w4] by (simp add: mixed_group_def metadata_def)
  show ?thesis using r1 r2 r3 r4 by blast
qed







section \<open>Properties of the calendar arithmetic\<close>

lemma div_succ:
  fixes p k :: int
  assumes "0 < k"
  shows "(p + 1) div k - p div k = (if (p + 1) mod k = 0 then 1 else 0)"
proof (cases "p mod k = k - 1")
  case True
  have "k * (p div k) + p mod k = p" by (rule mult_div_mod_eq)
  then have "p = k * (p div k) + (k - 1)" using True by simp
  then have "p + 1 = k * (p div k) + k" by simp
  then have e: "p + 1 = k * (p div k + 1) + 0" by (simp only: distrib_left mult_1_right add_0_right)
  have "(p + 1) div k = p div k + 1"
    by (rule int_div_pos_eq[OF e]) (use assms in simp_all)
  moreover have "(p + 1) mod k = 0"
    by (rule int_mod_pos_eq[OF e]) (use assms in simp_all)
  ultimately show ?thesis by simp
next
  case False
  have lt: "p mod k < k" and ge: "0 \<le> p mod k" using assms by simp_all
  have "k * (p div k) + p mod k = p" by (rule mult_div_mod_eq)
  then have e: "p + 1 = k * (p div k) + (p mod k + 1)" by simp
  have r: "0 \<le> p mod k + 1" "p mod k + 1 < k" using lt ge False by simp_all
  have "(p + 1) div k = p div k" by (rule int_div_pos_eq[OF e r])
  moreover have "(p + 1) mod k = p mod k + 1" by (rule int_mod_pos_eq[OF e r])
  ultimately show ?thesis using ge by simp
qed

lemma year_length:
  assumes "1 \<le> y"
  shows "days_before_year (Suc y) - days_before_year y = 365 + (if is_leap y then 1 else 0)"
proof -
  obtain p :: int where p: "p = int y - 1" by simp
  have iy: "int y = p + 1" using p by simp
  define d4 where "d4 = (p + 1) div 4 - p div 4"
  define d100 where "d100 = (p + 1) div 100 - p div 100"
  define d400 where "d400 = (p + 1) div 400 - p div 400"
  define a4 where "a4 = ((p + 1) mod 4 = 0)"
  define a100 where "a100 = ((p + 1) mod 100 = 0)"
  define a400 where "a400 = ((p + 1) mod 400 = 0)"
  have l4: "(y mod 4 = 0) = a4"
    unfolding a4_def iy[symmetric] by presburger
  have l100: "(y mod 100 = 0) = a100"
    unfolding a100_def iy[symmetric] by presburger
  have l400: "(y mod 400 = 0) = a400"
    unfolding a400_def iy[symmetric] by presburger
  have e: "days_before_year (Suc y) - days_before_year y = 365 + d4 - d100 + d400"
    using iy by (simp add: days_before_year_def Let_def algebra_simps d4_def d100_def d400_def)
  have v4: "d4 = (if a4 then 1 else 0)"
    unfolding d4_def a4_def by (rule div_succ) simp
  have v100: "d100 = (if a100 then 1 else 0)"
    unfolding d100_def a100_def by (rule div_succ) simp
  have v400: "d400 = (if a400 then 1 else 0)"
    unfolding d400_def a400_def by (rule div_succ) simp
  have i1: "a400 \<Longrightarrow> a100"
  proof -
    assume "a400"
    then have "400 dvd (p + 1)" by (simp add: a400_def mod_eq_0_iff_dvd)
    moreover have "(100::int) dvd 400" by simp
    ultimately have "100 dvd (p + 1)" by (rule dvd_trans[rotated])
    then show ?thesis by (simp add: a100_def mod_eq_0_iff_dvd)
  qed
  have i2: "a100 \<Longrightarrow> a4"
  proof -
    assume "a100"
    then have "100 dvd (p + 1)" by (simp add: a100_def mod_eq_0_iff_dvd)
    moreover have "(4::int) dvd 100" by simp
    ultimately have "4 dvd (p + 1)" by (rule dvd_trans[rotated])
    then show ?thesis by (simp add: a4_def mod_eq_0_iff_dvd)
  qed
  have leap: "is_leap y = (a4 \<and> (\<not> a100 \<or> a400))"
    by (simp only: is_leap_def l4 l100 l400)
  show ?thesis
    unfolding e v4 v100 v400 leap using i1 i2 by (cases a4; cases a100; cases a400) simp_all
qed

lemma month_cases:
  assumes "1 \<le> m" "m \<le> (12::nat)"
  shows "m = 1 \<or> m = 2 \<or> m = 3 \<or> m = 4 \<or> m = 5 \<or> m = 6 \<or> m = 7 \<or> m = 8 \<or> m = 9 \<or> m = 10 \<or> m = 11 \<or> m = 12"
  using assms by arith

lemma month_length_within_year:
  assumes "1 \<le> m" "m < 12"
  shows "days_before_month y (Suc m) - days_before_month y m = calendar_days y m"
proof -
  from assms have "m = 1 \<or> m = 2 \<or> m = 3 \<or> m = 4 \<or> m = 5 \<or> m = 6 \<or> m = 7 \<or> m = 8 \<or> m = 9 \<or> m = 10 \<or> m = 11"
    by arith
  then show ?thesis
    by (elim disjE) (simp_all add: days_before_month_def calendar_days_def)
qed

lemma december_length:
  assumes "1 \<le> y"
  shows "ymd2ord (Suc y) 1 1 - ymd2ord y 12 1 = calendar_days y 12"
  using year_length[OF assms]
  by (simp add: ymd2ord_def days_before_month_def calendar_days_def)

lemma next_month_start:
  assumes "valid_month m" "shift_one_month m = Inr n"
  shows "month_start n - month_start m = calendar_days (arrow_year m) (arrow_month m) * us_per_day"
proof (cases "arrow_month m = 12")
  case True
  with assms have n: "n = \<lparr>arrow_year = Suc (arrow_year m), arrow_month = 1\<rparr>"
    by (auto simp: shift_one_month_def split: if_splits)
  have "1 \<le> arrow_year m" using assms(1) by (simp add: valid_month_def)
  from december_length[OF this] True n show ?thesis
    by (simp add: month_start_def algebra_simps flip: left_diff_distrib)
next
  case False
  with assms have n: "n = \<lparr>arrow_year = arrow_year m, arrow_month = Suc (arrow_month m)\<rparr>"
    by (auto simp: shift_one_month_def)
  have "1 \<le> arrow_month m" "arrow_month m < 12"
    using assms(1) False by (auto simp: valid_month_def)
  from month_length_within_year[OF this, of "arrow_year m"] n show ?thesis
    by (simp add: month_start_def ymd2ord_def algebra_simps flip: left_diff_distrib)
qed

lemma calendar_days_pos: "1 \<le> calendar_days y m"
  by (simp add: calendar_days_def)

lemma shift_one_month_ok:
  assumes "valid_month m" "\<not> (arrow_year m = 9999 \<and> arrow_month m = 12)"
  shows "\<exists>n. shift_one_month m = Inr n"
  using assms by (auto simp: shift_one_month_def valid_month_def)

lemma days_in_month_calendar:
  assumes "valid_month m" "\<not> (arrow_year m = 9999 \<and> arrow_month m = 12)"
  shows "days_in_month m = Inr (calendar_days (arrow_year m) (arrow_month m))"
proof -
  from shift_one_month_ok[OF assms] obtain n where n: "shift_one_month m = Inr n" by blast
  let ?d = "calendar_days (arrow_year m) (arrow_month m)"
  have eq: "month_start n - 1 - floor_month m = (?d - 1) * us_per_day + (us_per_day - 1)"
    using next_month_start[OF assms(1) n] by (simp add: floor_month_def algebra_simps)
  have dv: "((?d - 1) * us_per_day + (us_per_day - 1)) div us_per_day = ?d - 1"
    by (simp add: us_per_day_def)
  have "timedelta_days (month_start n - 1 - floor_month m) = ?d - 1"
    unfolding timedelta_days_def eq dv by (rule refl)
  then show ?thesis
    using n by (simp add: days_in_month_def ceil_month_def ebind_def)
qed

lemma digit_val_digit_char: "d < 10 \<Longrightarrow> digit_val (digit_char d) = d"
  by (simp add: digit_val_def digit_char_def)

lemma is_digit_digit_char: "d < 10 \<Longrightarrow> is_digit (digit_char d)"
  by (simp add: is_digit_def digit_char_def less_eq_char_def)

lemma digit_char_0: "digit_char 0 = CHR ''0''"
  by code_simp

lemma digits_small: "n < 10 \<Longrightarrow> digits n = [digit_char n]"
  by (simp add: digits.simps)

lemma digits_step: "10 \<le> n \<Longrightarrow> digits n = digits (n div 10) @ [digit_char (n mod 10)]"
  by (subst digits.simps) simp

lemma zfill4_cases:
  "zfill 4 [a] = [CHR ''0'', CHR ''0'', CHR ''0'', a]"
  "zfill 4 [a, b] = [CHR ''0'', CHR ''0'', a, b]"
  "zfill 4 [a, b, c] = [CHR ''0'', a, b, c]"
  "zfill 4 [a, b, c, d] = [a, b, c, d]"
  by (simp_all add: zfill_def numeral_eq_Suc)

lemma zfill4_digits:
  assumes "y < 10000"
  shows "zfill 4 (digits y) =
    [digit_char (y div 1000), digit_char (y div 100 mod 10), digit_char (y div 10 mod 10), digit_char (y mod 10)]"
proof -
  consider "y < 10" | "10 \<le> y" "y < 100" | "100 \<le> y" "y < 1000" | "1000 \<le> y" by linarith
  then show ?thesis
  proof cases
    case 1
    then show ?thesis
      by (simp add: digits_small zfill4_cases digit_char_0)
  next
    case 2
    then have "y div 10 < 10" by simp
    with 2 show ?thesis
      by (simp add: digits_step digits_small zfill4_cases digit_char_0)
  next
    case 3
    then have a: "10 \<le> y" "10 \<le> y div 10" "y div 10 div 10 < 10" by simp_all
    have b: "y div 10 div 10 = y div 100" by (simp add: div_mult2_eq[symmetric])
    from 3 a show ?thesis
      by (simp add: digits_step[of y] digits_step[of "y div 10"] digits_small b zfill4_cases digit_char_0)
  next
    case 4
    with assms have a: "10 \<le> y" "10 \<le> y div 10" "10 \<le> y div 10 div 10" "y div 10 div 10 div 10 < 10"
      by simp_all
    have b: "y div 10 div 10 = y div 100" "y div 100 div 10 = y div 1000"
      by (simp_all add: div_mult2_eq[symmetric])
    from a show ?thesis
      by (simp add: digits_step[of y] digits_step[of "y div 10"] digits_step[of "y div 100"]
            digits_small b zfill4_cases)
  qed
qed

lemma year_of_digit_chars:
  assumes "y < 10000"
  shows "year_of_digits (digit_char (y div 1000)) (digit_char (y div 100 mod 10))
           (digit_char (y div 10 mod 10)) (digit_char (y mod 10)) = y"
proof -
  have "y div 1000 < 10" using assms by simp
  then have "year_of_digits (digit_char (y div 1000)) (digit_char (y div 100 mod 10))
           (digit_char (y div 10 mod 10)) (digit_char (y mod 10))
        = 1000 * (y div 1000) + 100 * (y div 100 mod 10) + 10 * (y div 10 mod 10) + y mod 10"
    by (simp add: year_of_digits_def digit_val_digit_char)
  also have "\<dots> = y"
  proof -
    have g: "\<And>q1 q2 q3 r0 r1 r2 :: nat. y = 10 * q1 + r0 \<Longrightarrow> q1 = 10 * q2 + r1 \<Longrightarrow> q2 = 10 * q3 + r2
        \<Longrightarrow> 1000 * q3 + 100 * r2 + 10 * r1 + r0 = y" by simp
    have a: "y = 10 * (y div 10) + y mod 10" by simp
    have b: "y div 10 = 10 * (y div 100) + y div 10 mod 10"
      using mult_div_mod_eq[of 10 "y div 10"] by (simp add: div_mult2_eq[symmetric])
    have c: "y div 100 = 10 * (y div 1000) + y div 100 mod 10"
      using mult_div_mod_eq[of 10 "y div 100"] by (simp add: div_mult2_eq[symmetric])
    show ?thesis by (rule g[OF a b c])
  qed
  finally show ?thesis .
qed

lemma zfill2_month:
  assumes "1 \<le> m" "m \<le> 12"
  shows "match_month (zfill 2 (digits m)) = Some (m, [])"
proof -
  have c: "match_month (zfill 2 (digits (Suc 0))) = Some (Suc 0, [])"
    "match_month (zfill 2 (digits 2)) = Some (2, [])" "match_month (zfill 2 (digits 3)) = Some (3, [])"
    "match_month (zfill 2 (digits 4)) = Some (4, [])" "match_month (zfill 2 (digits 5)) = Some (5, [])"
    "match_month (zfill 2 (digits 6)) = Some (6, [])" "match_month (zfill 2 (digits 7)) = Some (7, [])"
    "match_month (zfill 2 (digits 8)) = Some (8, [])" "match_month (zfill 2 (digits 9)) = Some (9, [])"
    "match_month (zfill 2 (digits 10)) = Some (10, [])" "match_month (zfill 2 (digits 11)) = Some (11, [])"
    "match_month (zfill 2 (digits 12)) = Some (12, [])"
    by code_simp+
  from assms have "m = 1 \<or> m = 2 \<or> m = 3 \<or> m = 4 \<or> m = 5 \<or> m = 6 \<or> m = 7 \<or> m = 8 \<or> m = 9 \<or> m = 10 \<or> m = 11 \<or> m = 12"
    by arith
  then show ?thesis
    by (elim disjE) (simp_all add: c)
qed

lemma strptime_month_format:
  assumes "valid_month m"
  shows "strptime_Ym (month_format m) = Inr m"
proof -
  let ?y = "arrow_year m"
  have y: "?y < 10000" "1 \<le> ?y" using assms by (simp_all add: valid_month_def)
  have mo: "1 \<le> arrow_month m" "arrow_month m \<le> 12" using assms by (simp_all add: valid_month_def)
  have d: "?y div 1000 < 10" "?y div 100 mod 10 < 10" "?y div 10 mod 10 < 10" "?y mod 10 < 10"
    using y by simp_all
  have f: "month_format m = digit_char (?y div 1000) # digit_char (?y div 100 mod 10) #
      digit_char (?y div 10 mod 10) # digit_char (?y mod 10) # CHR ''-'' # zfill 2 (digits (arrow_month m))"
    by (simp add: month_format_def zfill4_digits[OF y(1)])
  show ?thesis
    unfolding f using y(2) d
    by (simp add: is_digit_digit_char year_of_digit_chars[OF y(1)] zfill2_month[OF mo])
qed

section \<open>Expected row counts\<close>

lemma days_in_month_id_calendar:
  assumes "valid_month m" "\<not> (arrow_year m = 9999 \<and> arrow_month m = 12)"
  shows "days_in_month_id (month_format m) = Inr (calendar_days (arrow_year m) (arrow_month m))"
proof -
  from shift_one_month_ok[OF assms] obtain n where n: "shift_one_month m = Inr n" by blast
  let ?d = "calendar_days (arrow_year m) (arrow_month m)"
  have "timedelta_days (month_start n - month_start m) = ?d"
    unfolding next_month_start[OF assms(1) n] timedelta_days_def by (simp add: us_per_day_def)
  then show ?thesis
    using n by (simp add: days_in_month_id_def strptime_month_format[OF assms(1)] ebind_def)
qed

text \<open>
  Claim C9, amended. For every month other than December 9999, \<open>CombinePlan.expected_rows\<close>
  returns the grid cell count multiplied by the number of days of the month. The
  validation of the spatial imputation manager raises \<open>SpatialImputationValidationError\<close>
  whenever the row count in the metadata of the month's output partition differs from
  this product, and it passes only when the partition exists with exactly this row count.
\<close>

theorem expected_rows_grid_times_days:
  assumes "valid_month m" "\<not> (arrow_year m = 9999 \<and> arrow_month m = 12)"
  shows "expected_rows grid_cells m = Inr (grid_cells * calendar_days (arrow_year m) (arrow_month m)) \<and>
         (\<forall>f. S (for_month output (month_format m)) = Some f \<and>
               height f \<noteq> grid_cells * calendar_days (arrow_year m) (arrow_month m) \<longrightarrow>
               (\<exists>msg. validate_result grid_cells S output (month_format m) expected_columns
                        = Inl (SpatialImputationValidationError msg))) \<and>
         (validate_result grid_cells S output (month_format m) expected_columns = Inr () \<longrightarrow>
            (\<exists>f. S (for_month output (month_format m)) = Some f \<and>
                 height f = grid_cells * calendar_days (arrow_year m) (arrow_month m)))"
proof (intro conjI allI impI)
  show "expected_rows grid_cells m = Inr (grid_cells * calendar_days (arrow_year m) (arrow_month m))"
    by (simp add: expected_rows_def days_in_month_calendar[OF assms] ebind_def)
next
  fix f
  assume "S (for_month output (month_format m)) = Some f \<and>
          height f \<noteq> grid_cells * calendar_days (arrow_year m) (arrow_month m)"
  then show "\<exists>msg. validate_result grid_cells S output (month_format m) expected_columns
                        = Inl (SpatialImputationValidationError msg)"
    by (simp add: validate_result_def days_in_month_id_calendar[OF assms] ebind_def
          read_dataframe_metadata_def mult.commute)
next
  assume "validate_result grid_cells S output (month_format m) expected_columns = Inr ()"
  then show "\<exists>f. S (for_month output (month_format m)) = Some f \<and>
                 height f = grid_cells * calendar_days (arrow_year m) (arrow_month m)"
    by (auto simp: validate_result_def days_in_month_id_calendar[OF assms] ebind_def
          read_dataframe_metadata_def mult.commute split: option.splits if_splits)
qed

theorem expected_rows_grid_times_days_witness:
  "valid_month \<lparr>arrow_year = 2023, arrow_month = 2\<rparr> \<and>
   expected_rows 10 \<lparr>arrow_year = 2023, arrow_month = 2\<rparr> = Inr 280 \<and>
   (\<exists>msg. validate_result 10 february_short_storage spatial_output ''2023-02'' []
            = Inl (SpatialImputationValidationError msg)) \<and>
   validate_result 10 february_full_storage spatial_output ''2023-02'' [] = Inr ()"
proof -
  let ?m = "\<lparr>arrow_year = 2023, arrow_month = 2\<rparr>"
  have v: "valid_month ?m" by (simp add: valid_month_def)
  have n: "\<not> (arrow_year ?m = 9999 \<and> arrow_month ?m = 12)" by simp
  have fm: "month_format ?m = ''2023-02''" by code_simp
  have cd: "calendar_days 2023 2 = 28" by (simp add: calendar_days_def is_leap_def)
  have s1: "february_short_storage (for_month spatial_output ''2023-02'') = Some two_row_frame"
    by (simp add: february_short_storage_def)
  have h1: "height two_row_frame \<noteq> 280" by (simp add: two_row_frame_def height_def)
  have ok: "validate_result 10 february_full_storage spatial_output ''2023-02'' [] = Inr ()"
    using days_in_month_id_calendar[OF v n]
    by (simp add: fm cd validate_result_def ebind_def read_dataframe_metadata_def
          february_full_storage_def full_february_frame_def height_def)
  from expected_rows_grid_times_days[OF v n, of 10 february_short_storage spatial_output "[]"]
    s1 h1 ok
  show ?thesis by (simp add: fm cd v)
qed

text \<open>
  Claim C9, as the spec words it, fails for December 9999: both computations of the number
  of days step to the following month, which Arrow cannot represent, and raise
  \<open>ValueError\<close> instead of returning the product.
\<close>

theorem expected_rows_december_9999_counterexample:
  "valid_month \<lparr>arrow_year = 9999, arrow_month = 12\<rparr> \<and>
   expected_rows 10 \<lparr>arrow_year = 9999, arrow_month = 12\<rparr>
     = Inl (ValueError [Lit ''year '', FmtInt 10000, Lit '' is out of range'']) \<and>
   expected_rows 10 \<lparr>arrow_year = 9999, arrow_month = 12\<rparr> \<noteq> Inr (10 * calendar_days 9999 12) \<and>
   month_format \<lparr>arrow_year = 9999, arrow_month = 12\<rparr> = ''9999-12'' \<and>
   days_in_month_id ''9999-12''
     = Inl (ValueError [Lit ''year '', FmtInt 10000, Lit '' is out of range''])"
proof -
  let ?m = "\<lparr>arrow_year = 9999, arrow_month = 12\<rparr>"
  have v: "valid_month ?m" by (simp add: valid_month_def)
  have s: "shift_one_month ?m = Inl (ValueError [Lit ''year '', FmtInt 10000, Lit '' is out of range''])"
    by (simp add: shift_one_month_def)
  have e: "expected_rows 10 ?m = Inl (ValueError [Lit ''year '', FmtInt 10000, Lit '' is out of range''])"
    by (simp add: expected_rows_def days_in_month_def ceil_month_def s ebind_def)
  have d9: "digit_char 9 = CHR ''9''" and z12: "zfill 2 (digits 12) = ''12''" by code_simp+
  have f: "month_format ?m = ''9999-12''"
    by (simp add: month_format_def zfill4_digits d9 z12)
  have p: "strptime_Ym (month_format ?m) = Inr ?m" by (rule strptime_month_format[OF v])
  have d: "days_in_month_id ''9999-12''
     = Inl (ValueError [Lit ''year '', FmtInt 10000, Lit '' is out of range''])"
    using p by (simp add: f days_in_month_id_def s ebind_def)
  show ?thesis using v e f d by simp
qed

section \<open>The skip checks\<close>

lemma from_pool_of_Inr [simp]: "from_pool (Inr x) = Inr x"
  by (simp add: from_pool_def)

lemma from_pool_Inr [simp]: "(from_pool r = Inr x) = (r = Inr x)"
  by (auto simp: from_pool_def split: sum.splits error.splits)

lemma from_pool_ValueError [simp]: "(from_pool r = Inl (ValueError msg)) = (r = Inl (ValueError msg))"
  by (auto simp: from_pool_def split: sum.splits error.splits)

lemma from_pool_validation_error [simp]:
  "(from_pool r = Inl (SpatialImputationValidationError msg)) = (r = Inl (SpatialImputationValidationError msg))"
  by (auto simp: from_pool_def split: sum.splits error.splits)

lemma needs_recombining_Inr:
  "needs_recombining S out stages m = Inr b \<Longrightarrow>
     b = (\<not> does_dataset_exist S (for_month out (month_format m))
          \<or> (\<exists>msg. validate_combined S out stages m = Inl (ValueError msg)))"
  by (auto simp: needs_recombining_def split: if_splits sum.splits error.splits)

lemma needs_recombining_total:
  assumes "does_dataset_exist S (for_month out (month_format m)) \<longrightarrow>
     validate_combined S out stages m = Inr () \<or> (\<exists>msg. validate_combined S out stages m = Inl (ValueError msg))"
  shows "\<exists>b. needs_recombining S out stages m = Inr b"
  using assms by (auto simp: needs_recombining_def)

lemma needs_recombining_not_ValueError:
  "needs_recombining S out stages m \<noteq> Inl (ValueError msg)"
  by (auto simp: needs_recombining_def split: sum.splits error.splits)

lemma months_needing_eq:
  assumes "months_needing S out stages ms = Inr f"
  shows "f = filter (\<lambda>m. \<not> does_dataset_exist S (for_month out (month_format m))
          \<or> (\<exists>msg. validate_combined S out stages m = Inl (ValueError msg))) ms"
  using assms
proof (induction ms arbitrary: f)
  case Nil
  then show ?case by simp
next
  case (Cons m ms)
  from Cons.prems obtain b rest where
    b: "needs_recombining S out stages m = Inr b"
    and r: "months_needing S out stages ms = Inr rest"
    and f: "f = (if b then m # rest else rest)"
    by (auto simp: ebind_def split: sum.splits)
  from needs_recombining_Inr[OF b] Cons.IH[OF r] f show ?case by auto
qed

lemma months_needing_total:
  assumes "\<forall>m\<in>set ms. does_dataset_exist S (for_month out (month_format m)) \<longrightarrow>
     validate_combined S out stages m = Inr () \<or> (\<exists>msg. validate_combined S out stages m = Inl (ValueError msg))"
  shows "\<exists>f. months_needing S out stages ms = Inr f"
  using assms
proof (induction ms)
  case Nil
  then show ?case by simp
next
  case (Cons m ms)
  from Cons.prems have "does_dataset_exist S (for_month out (month_format m)) \<longrightarrow>
     validate_combined S out stages m = Inr () \<or> (\<exists>msg. validate_combined S out stages m = Inl (ValueError msg))"
    by simp
  from needs_recombining_total[OF this] obtain b where b: "needs_recombining S out stages m = Inr b" by blast
  from Cons obtain f where "months_needing S out stages ms = Inr f" by auto
  with b show ?case by (simp add: ebind_def)
qed

lemma months_needing_not_ValueError:
  "months_needing S out stages ms \<noteq> Inl (ValueError msg)"
proof (induction ms)
  case Nil
  show ?case by simp
next
  case (Cons m ms)
  show ?case using Cons needs_recombining_not_ValueError[of S out stages m msg]
    by (auto simp: ebind_def split: sum.splits)
qed

lemma needs_upload_Inr:
  "needs_upload g S out m cols = Inr b \<Longrightarrow>
     b = (\<not> does_dataset_exist S (for_month out m)
          \<or> (\<exists>msg. validate_result g S out m cols = Inl (SpatialImputationValidationError msg)))"
  by (auto simp: needs_upload_def split: if_splits sum.splits error.splits)

lemma needs_upload_total:
  assumes "does_dataset_exist S (for_month out m) \<longrightarrow>
     validate_result g S out m cols = Inr ()
       \<or> (\<exists>msg. validate_result g S out m cols = Inl (SpatialImputationValidationError msg))"
  shows "\<exists>b. needs_upload g S out m cols = Inr b"
  using assms by (auto simp: needs_upload_def)

lemma needs_upload_not_validation_error:
  "needs_upload g S out m cols \<noteq> Inl (SpatialImputationValidationError msg)"
  by (auto simp: needs_upload_def split: sum.splits error.splits)

lemma identify_eq:
  assumes "identify_months_to_upload g S out cols ms = Inr f"
  shows "f = filter (\<lambda>m. \<not> does_dataset_exist S (for_month out m)
          \<or> (\<exists>msg. validate_result g S out m cols = Inl (SpatialImputationValidationError msg))) ms"
  using assms
proof (induction ms arbitrary: f)
  case Nil
  then show ?case by simp
next
  case (Cons m ms)
  from Cons.prems obtain b rest where
    b: "needs_upload g S out m cols = Inr b"
    and r: "identify_months_to_upload g S out cols ms = Inr rest"
    and f: "f = (if b then m # rest else rest)"
    by (auto simp: ebind_def split: sum.splits)
  from needs_upload_Inr[OF b] Cons.IH[OF r] f show ?case by auto
qed

lemma identify_total:
  assumes "\<forall>m\<in>set ms. does_dataset_exist S (for_month out m) \<longrightarrow>
     validate_result g S out m cols = Inr ()
       \<or> (\<exists>msg. validate_result g S out m cols = Inl (SpatialImputationValidationError msg))"
  shows "\<exists>f. identify_months_to_upload g S out cols ms = Inr f"
  using assms
proof (induction ms)
  case Nil
  then show ?case by simp
next
  case (Cons m ms)
  from Cons.prems have "does_dataset_exist S (for_month out m) \<longrightarrow>
     validate_result g S out m cols = Inr ()
       \<or> (\<exists>msg. validate_result g S out m cols = Inl (SpatialImputationValidationError msg))"
    by simp
  from needs_upload_total[OF this] obtain b where b: "needs_upload g S out m cols = Inr b" by blast
  from Cons obtain f where "identify_months_to_upload g S out cols ms = Inr f" by auto
  with b show ?case by (simp add: ebind_def)
qed

lemma identify_not_validation_error:
  "identify_months_to_upload g S out cols ms \<noteq> Inl (SpatialImputationValidationError msg)"
proof (induction ms)
  case Nil
  show ?case by simp
next
  case (Cons m ms)
  show ?case using Cons needs_upload_not_validation_error[of g S out m cols msg]
    by (auto simp: ebind_def split: sum.splits)
qed

text \<open>
  Claim C7. In the recombiner: whenever the skip-check phase \<open>_filter_months_to_update\<close>
  returns, the months it returns are exactly the months whose output partition does not
  exist or whose re-validation raised \<open>ValueError\<close>, so a month whose existing partition
  failed re-validation is marked as needing recombination; the phase returns whenever the
  re-validation of every existing partition passes or fails with \<open>ValueError\<close>; and it never
  leaves with a \<open>ValueError\<close>. In the spatial imputation manager the same holds of
  \<open>_identify_months_to_upload\<close> and \<open>SpatialImputationValidationError\<close>.
\<close>

theorem skip_check_catches_validation_failures:
  "(\<forall>f. filter_months_to_update False S out stages months = Inr f \<longrightarrow>
      f = filter (\<lambda>m. \<not> does_dataset_exist S (for_month out (month_format m))
                   \<or> (\<exists>msg. validate_combined S out stages m = Inl (ValueError msg))) months) \<and>
   ((\<forall>m\<in>set months. does_dataset_exist S (for_month out (month_format m)) \<longrightarrow>
        validate_combined S out stages m = Inr ()
          \<or> (\<exists>msg. validate_combined S out stages m = Inl (ValueError msg)))
      \<longrightarrow> (\<exists>f. filter_months_to_update False S out stages months = Inr f)) \<and>
   filter_months_to_update force S out stages months \<noteq> Inl (ValueError msg') \<and>
   (\<forall>f. identify_months_to_upload g S out cols month_ids = Inr f \<longrightarrow>
      f = filter (\<lambda>m. \<not> does_dataset_exist S (for_month out m)
                   \<or> (\<exists>msg. validate_result g S out m cols = Inl (SpatialImputationValidationError msg)))
            month_ids) \<and>
   ((\<forall>m\<in>set month_ids. does_dataset_exist S (for_month out m) \<longrightarrow>
        validate_result g S out m cols = Inr ()
          \<or> (\<exists>msg. validate_result g S out m cols = Inl (SpatialImputationValidationError msg)))
      \<longrightarrow> (\<exists>f. identify_months_to_upload g S out cols month_ids = Inr f)) \<and>
   identify_months_to_upload g S out cols month_ids \<noteq> Inl (SpatialImputationValidationError msg')"
proof (intro conjI allI impI)
  fix f assume "filter_months_to_update False S out stages months = Inr f"
  then show "f = filter (\<lambda>m. \<not> does_dataset_exist S (for_month out (month_format m))
                   \<or> (\<exists>msg. validate_combined S out stages m = Inl (ValueError msg))) months"
    using months_needing_eq by (simp add: filter_months_to_update_def)
next
  assume "\<forall>m\<in>set months. does_dataset_exist S (for_month out (month_format m)) \<longrightarrow>
        validate_combined S out stages m = Inr ()
          \<or> (\<exists>msg. validate_combined S out stages m = Inl (ValueError msg))"
  from months_needing_total[OF this]
  show "\<exists>f. filter_months_to_update False S out stages months = Inr f"
    by (simp add: filter_months_to_update_def)
next
  show "filter_months_to_update force S out stages months \<noteq> Inl (ValueError msg')"
    using months_needing_not_ValueError[of S out stages months msg']
    by (simp add: filter_months_to_update_def)
next
  fix f assume "identify_months_to_upload g S out cols month_ids = Inr f"
  then show "f = filter (\<lambda>m. \<not> does_dataset_exist S (for_month out m)
                   \<or> (\<exists>msg. validate_result g S out m cols = Inl (SpatialImputationValidationError msg)))
            month_ids"
    by (rule identify_eq)
next
  assume "\<forall>m\<in>set month_ids. does_dataset_exist S (for_month out m) \<longrightarrow>
        validate_result g S out m cols = Inr ()
          \<or> (\<exists>msg. validate_result g S out m cols = Inl (SpatialImputationValidationError msg))"
  from identify_total[OF this]
  show "\<exists>f. identify_months_to_upload g S out cols month_ids = Inr f" .
next
  show "identify_months_to_upload g S out cols month_ids \<noteq> Inl (SpatialImputationValidationError msg')"
    by (rule identify_not_validation_error)
qed


lemma month_ids_2023: "month_format january = ''2023-01''" "month_format february = ''2023-02''"
  unfolding january_def february_def by code_simp+

lemma days_2023:
  "days_in_month_id ''2023-01'' = Inr 31" "days_in_month_id ''2023-02'' = Inr 28"
proof -
  have v: "valid_month january" "valid_month february"
    by (simp_all add: january_def february_def valid_month_def)
  have n: "\<not> (arrow_year january = 9999 \<and> arrow_month january = 12)"
    "\<not> (arrow_year february = 9999 \<and> arrow_month february = 12)"
    by (simp_all add: january_def february_def)
  show "days_in_month_id ''2023-01'' = Inr 31"
    using days_in_month_id_calendar[OF v(1) n(1)]
    by (simp add: month_ids_2023) (simp add: january_def calendar_days_def)
  show "days_in_month_id ''2023-02'' = Inr 28"
    using days_in_month_id_calendar[OF v(2) n(2)]
    by (simp add: month_ids_2023) (simp add: february_def calendar_days_def is_leap_def)
qed

theorem skip_check_catches_validation_failures_witness:
  "filter_months_to_update False half_stale_storage recombined_output [stage1] [january, february]
     = Inr [february] \<and>
   identify_months_to_upload 10 half_stale_spatial_storage spatial_output [] [''2023-01'', ''2023-02'']
     = Inr [''2023-02'']"
proof -
  let ?S = half_stale_storage and ?T = half_stale_spatial_storage
  have paths [simp]: "for_month stage1 ''2023-01'' \<noteq> for_month recombined_output ''2023-01''"
    "for_month stage1 ''2023-02'' \<noteq> for_month recombined_output ''2023-02''"
    "\<And>a b. for_month a ''2023-01'' \<noteq> for_month b ''2023-02''"
    "\<And>a b. for_month a ''2023-02'' \<noteq> for_month b ''2023-01''"
    by (simp_all add: for_month_def stage1_def recombined_output_def)
  have ej: "does_dataset_exist ?S (for_month recombined_output (month_format january))"
    and ef: "does_dataset_exist ?S (for_month recombined_output (month_format february))"
    by (simp_all add: month_ids_2023 does_dataset_exist_def half_stale_storage_def)
  have vj: "validate_combined ?S recombined_output [stage1] january = Inr ()"
    by (simp add: month_ids_2023 validate_combined_def first_stage_def ebind_def
          read_dataframe_metadata_def half_stale_storage_def height_def two_row_frame_def)
  have vf: "\<exists>msg. validate_combined ?S recombined_output [stage1] february = Inl (ValueError msg)"
    by (simp add: month_ids_2023 validate_combined_def first_stage_def ebind_def
          read_dataframe_metadata_def half_stale_storage_def height_def two_row_frame_def
          one_row_frame_def)
  have tot: "\<forall>m\<in>set [january, february].
      does_dataset_exist ?S (for_month recombined_output (month_format m)) \<longrightarrow>
        validate_combined ?S recombined_output [stage1] m = Inr ()
          \<or> (\<exists>msg. validate_combined ?S recombined_output [stage1] m = Inl (ValueError msg))"
    using vj vf by simp
  have tj: "does_dataset_exist ?T (for_month spatial_output ''2023-01'')"
    and tf: "does_dataset_exist ?T (for_month spatial_output ''2023-02'')"
    by (simp_all add: does_dataset_exist_def half_stale_spatial_storage_def)
  have wj: "validate_result 10 ?T spatial_output ''2023-01'' [] = Inr ()"
    by (simp add: validate_result_def days_2023 ebind_def read_dataframe_metadata_def
          half_stale_spatial_storage_def height_def full_january_frame_def)
  have wf: "\<exists>msg. validate_result 10 ?T spatial_output ''2023-02'' []
      = Inl (SpatialImputationValidationError msg)"
    by (simp add: validate_result_def days_2023 ebind_def read_dataframe_metadata_def
          half_stale_spatial_storage_def height_def two_row_frame_def)
  have tot2: "\<forall>m\<in>set [''2023-01'', ''2023-02''].
      does_dataset_exist ?T (for_month spatial_output m) \<longrightarrow>
        validate_result 10 ?T spatial_output m [] = Inr ()
          \<or> (\<exists>msg. validate_result 10 ?T spatial_output m [] = Inl (SpatialImputationValidationError msg))"
    using wj wf by simp
  note inst1 = skip_check_catches_validation_failures[where S = half_stale_storage and out = recombined_output
      and stages = "[stage1]" and months = "[january, february]"]
  note inst2 = skip_check_catches_validation_failures[where S = half_stale_spatial_storage and out = spatial_output
      and g = 10 and cols = "[]" and month_ids = "[''2023-01'', ''2023-02'']"]
  from inst1 tot obtain f where
    f: "filter_months_to_update False ?S recombined_output [stage1] [january, february] = Inr f"
    by blast
  with inst1 have "f = filter (\<lambda>m. \<not> does_dataset_exist ?S (for_month recombined_output (month_format m))
                   \<or> (\<exists>msg. validate_combined ?S recombined_output [stage1] m = Inl (ValueError msg)))
                 [january, february]" by blast
  then have r1: "f = [february]" using ej ef vj vf by simp
  from inst2 tot2 obtain h where
    h: "identify_months_to_upload 10 ?T spatial_output [] [''2023-01'', ''2023-02''] = Inr h"
    by blast
  with inst2 have "h = filter (\<lambda>m. \<not> does_dataset_exist ?T (for_month spatial_output m)
       \<or> (\<exists>msg. validate_result 10 ?T spatial_output m [] = Inl (SpatialImputationValidationError msg)))
       [''2023-01'', ''2023-02'']" by blast
  then have r2: "h = [''2023-02'']" using tj tf wj wf by simp
  show ?thesis using f h r1 r2 by simp
qed

section \<open>Idempotence of the recombiner\<close>

lemma for_month_inj: "for_month a s = for_month b t \<Longrightarrow> s = t"
  by (simp add: for_month_def)

lemma collect_expected_columns_cong:
  assumes "\<forall>st\<in>set stages. S (for_month st ms) = T (for_month st ms)"
  shows "collect_expected_columns S stages ms acc = collect_expected_columns T stages ms acc"
  using assms
  by (induction stages arbitrary: acc) (simp_all add: read_dataframe_metadata_def ebind_def)


lemma first_stage_mem: "first_stage stages = Inr st \<Longrightarrow> st \<in> set stages"
  by (cases stages) (simp_all add: first_stage_def)

lemma ebind_Inr [simp]: "ebind (Inr x) f = f x"
  by (simp add: ebind_def)

lemma ebind_Inl [simp]: "ebind (Inl e) f = Inl e"
  by (simp add: ebind_def)

lemma read_metadata_cong:
  "S p = T p \<Longrightarrow> read_dataframe_metadata S p = read_dataframe_metadata T p"
  by (simp add: read_dataframe_metadata_def)

lemma validate_combined_cong:
  assumes "\<forall>st\<in>set stages. S (for_month st (month_format m)) = T (for_month st (month_format m))"
    and "S (for_month out (month_format m)) = T (for_month out (month_format m))"
  shows "validate_combined S out stages m = validate_combined T out stages m"
proof -
  have c: "collect_expected_columns S stages (month_format m) {}
         = collect_expected_columns T stages (month_format m) {}"
    by (rule collect_expected_columns_cong[OF assms(1)])
  have o: "read_dataframe_metadata S (for_month out (month_format m))
         = read_dataframe_metadata T (for_month out (month_format m))"
    using assms(2) by (simp add: read_dataframe_metadata_def)
  show ?thesis
  proof (cases "first_stage stages")
    case (Inl e)
    then show ?thesis by (simp add: validate_combined_def Let_def c)
  next
    case (Inr st)
    then have "S (for_month st (month_format m)) = T (for_month st (month_format m))"
      using assms(1) first_stage_mem by blast
    then have f: "read_dataframe_metadata S (for_month st (month_format m))
         = read_dataframe_metadata T (for_month st (month_format m))"
      by (simp add: read_dataframe_metadata_def)
    show ?thesis by (simp add: validate_combined_def Let_def c Inr f o)
  qed
qed

lemma validate_combined_same_id:
  "month_format m = month_format n \<Longrightarrow> validate_combined S out stages m = validate_combined S out stages n"
  by (simp add: validate_combined_def)

lemma process_month_writes:
  assumes "process_month ow S out stages m = Inr S1"
  shows "\<exists>df. S1 = S(for_month out (month_format m) \<mapsto> df)"
  using assms
  by (auto simp: process_month_def ebind_def write_to_destination_def split: sum.splits)

lemma process_in_parallel_effect:
  assumes "process_in_parallel ow S out stages ms = Inr (S1, written)"
  shows "written = map (\<lambda>m. for_month out (month_format m)) ms
       \<and> (\<forall>p. p \<notin> set written \<longrightarrow> S1 p = S p)
       \<and> (\<forall>p. S p \<noteq> None \<longrightarrow> S1 p \<noteq> None)
       \<and> (\<forall>p\<in>set written. S1 p \<noteq> None)"
  using assms
proof (induction ms arbitrary: S S1 written)
  case Nil
  then show ?case by simp
next
  case (Cons m ms)
  from Cons.prems obtain Sa Sb w where
    a: "process_month ow S out stages m = Inr Sa"
    and b: "process_in_parallel ow Sa out stages ms = Inr (Sb, w)"
    and c: "S1 = Sb" "written = for_month out (month_format m) # w"
    by (auto simp: ebind_def split: sum.splits prod.splits)
  from process_month_writes[OF a] obtain df where
    sa: "Sa = S(for_month out (month_format m) \<mapsto> df)" by blast
  from Cons.IH[OF b] have ih: "w = map (\<lambda>m. for_month out (month_format m)) ms"
    "\<forall>p. p \<notin> set w \<longrightarrow> Sb p = Sa p" "\<forall>p. Sa p \<noteq> None \<longrightarrow> Sb p \<noteq> None"
    "\<forall>p\<in>set w. Sb p \<noteq> None" by blast+
  show ?case
    unfolding c using ih sa by auto
qed

lemma months_needing_valid:
  assumes "months_needing S out stages ms = Inr f" "m \<in> set ms"
  shows "does_dataset_exist S (for_month out (month_format m)) \<Longrightarrow>
         \<not> (\<exists>msg. validate_combined S out stages m = Inl (ValueError msg)) \<Longrightarrow>
         validate_combined S out stages m = Inr ()"
  using assms
proof (induction ms arbitrary: f)
  case Nil
  then show ?case by simp
next
  case (Cons a ms)
  from Cons.prems(3) obtain b rest where
    b: "needs_recombining S out stages a = Inr b"
    and r: "months_needing S out stages ms = Inr rest"
    by (auto simp: ebind_def split: sum.splits)
  show ?case
  proof (cases "m = a")
    case True
    with b Cons.prems(1,2) show ?thesis
      by (auto simp: needs_recombining_def split: if_splits sum.splits error.splits)
  next
    case False
    with Cons.prems(4) have "m \<in> set ms" by simp
    from Cons.IH[OF Cons.prems(1,2) r this] show ?thesis .
  qed
qed

lemma validate_all_result:
  assumes "validate_all S out stages ms = Inr ()"
  shows "\<forall>m\<in>set ms. validate_combined S out stages m = Inr ()"
  using assms
  by (induction ms) (auto simp: ebind_def split: sum.splits)

lemma months_needing_none:
  assumes "\<forall>m\<in>set ms. does_dataset_exist S (for_month out (month_format m)) \<and> validate_combined S out stages m = Inr ()"
  shows "months_needing S out stages ms = Inr []"
  using assms
  by (induction ms) (simp_all add: needs_recombining_def ebind_def)

text \<open>
  Claim C2. After a run of \<open>recombine\<close> that completed, a second run with force disabled on
  the storage that the first run left performs no write: for every month the output
  partition exists and passes re-validation, so the skip check marks no month as needing
  recombination, \<open>_filter_months_to_update\<close> selects no month, and the run returns with the
  storage unchanged and an empty list of written partitions.
\<close>

theorem recombine_second_run_writes_nothing:
  assumes "recombine force ow S0 out stages months = Inr (S1, written)"
  shows "(\<forall>m\<in>set months. does_dataset_exist S1 (for_month out (month_format m)) \<and>
            validate_combined S1 out stages m = Inr () \<and>
            needs_recombining S1 out stages m = Inr False) \<and>
         filter_months_to_update False S1 out stages months = Inr [] \<and>
         recombine False ow' S1 out stages months = Inr (S1, [])"
proof -
  from assms obtain filtered where
    fl: "filter_months_to_update force S0 out stages months = Inr filtered"
    and pr: "process_in_parallel ow S0 out stages filtered = Inr (S1, written)"
    and va: "validate_all S1 out stages filtered = Inr ()"
    by (auto simp: recombine_def ebind_def split: sum.splits prod.splits)
  from process_in_parallel_effect[OF pr] have
    w: "written = map (\<lambda>m. for_month out (month_format m)) filtered"
    and same: "\<forall>p. p \<notin> set written \<longrightarrow> S1 p = S0 p"
    and keep: "\<forall>p. S0 p \<noteq> None \<longrightarrow> S1 p \<noteq> None"
    and there: "\<forall>p\<in>set written. S1 p \<noteq> None" by blast+
  have valid: "\<forall>m\<in>set filtered. validate_combined S1 out stages m = Inr ()"
    by (rule validate_all_result[OF va])
  have all_ok: "\<forall>m\<in>set months. does_dataset_exist S1 (for_month out (month_format m))
      \<and> validate_combined S1 out stages m = Inr ()"
  proof
    fix m assume m: "m \<in> set months"
    show "does_dataset_exist S1 (for_month out (month_format m)) \<and> validate_combined S1 out stages m = Inr ()"
    proof (cases "\<exists>n\<in>set filtered. month_format n = month_format m")
      case True
      then obtain n where n: "n \<in> set filtered" "month_format n = month_format m" by blast
      from n(1) have "for_month out (month_format n) \<in> set written"
        by (simp add: w)
      then have "for_month out (month_format m) \<in> set written" by (simp only: n(2))
      then have "does_dataset_exist S1 (for_month out (month_format m))"
        using there by (simp add: does_dataset_exist_def)
      moreover have "validate_combined S1 out stages m = Inr ()"
        using valid n validate_combined_same_id[OF n(2)] by metis
      ultimately show ?thesis by simp
    next
      case False
      then have nf: "m \<notin> set filtered" by blast
      have notforce: "\<not> force"
      proof
        assume "force"
        then have "filtered = months" using fl by (simp add: filter_months_to_update_def)
        with m nf show False by simp
      qed
      then have mn: "months_needing S0 out stages months = Inr filtered"
        using fl by (simp add: filter_months_to_update_def)
      from months_needing_eq[OF mn] m nf have
        old: "does_dataset_exist S0 (for_month out (month_format m))"
             "\<not> (\<exists>msg. validate_combined S0 out stages m = Inl (ValueError msg))" by auto
      from months_needing_valid[OF mn m] old have
        oldv: "validate_combined S0 out stages m = Inr ()" by blast
      have untouched: "\<And>st. for_month st (month_format m) \<notin> set written"
      proof
        fix st assume "for_month st (month_format m) \<in> set written"
        then obtain n where "n \<in> set filtered"
          "for_month st (month_format m) = for_month out (month_format n)"
          using w by auto
        then have "n \<in> set filtered" "month_format n = month_format m"
          using for_month_inj by metis+
        with False show False by blast
      qed
      then have eq: "\<And>st. S1 (for_month st (month_format m)) = S0 (for_month st (month_format m))"
        using same by blast
      have "validate_combined S1 out stages m = validate_combined S0 out stages m"
        by (rule validate_combined_cong) (simp_all add: eq)
      moreover have "does_dataset_exist S1 (for_month out (month_format m))"
        using old(1) eq by (simp add: does_dataset_exist_def)
      ultimately show ?thesis using oldv by simp
    qed
  qed
  then have needs: "\<forall>m\<in>set months. needs_recombining S1 out stages m = Inr False"
    by (simp add: needs_recombining_def)
  have f2: "filter_months_to_update False S1 out stages months = Inr []"
    using months_needing_none[OF all_ok] by (simp add: filter_months_to_update_def)
  then have "recombine False ow' S1 out stages months = Inr (S1, [])"
    by (simp add: recombine_def)
  with all_ok needs f2 show ?thesis by simp
qed

lemma half_stale_first_run:
  "recombine False False half_stale_storage recombined_output [stage1] [january, february]
     = Inr (repaired_storage, [for_month recombined_output ''2023-02''])"
proof -
  have paths [simp]: "for_month stage1 ''2023-01'' \<noteq> for_month recombined_output ''2023-01''"
    "for_month stage1 ''2023-02'' \<noteq> for_month recombined_output ''2023-02''"
    "\<And>a b. for_month a ''2023-01'' \<noteq> for_month b ''2023-02''"
    "\<And>a b. for_month a ''2023-02'' \<noteq> for_month b ''2023-01''"
    by (simp_all add: for_month_def stage1_def recombined_output_def)
  have nj: "needs_recombining half_stale_storage recombined_output [stage1] january = Inr False"
    by (simp add: needs_recombining_def does_dataset_exist_def month_ids_2023 validate_combined_def
          first_stage_def read_dataframe_metadata_def half_stale_storage_def height_def
          two_row_frame_def)
  have nf: "needs_recombining half_stale_storage recombined_output [stage1] february = Inr True"
    by (simp add: needs_recombining_def does_dataset_exist_def month_ids_2023 validate_combined_def
          first_stage_def read_dataframe_metadata_def half_stale_storage_def height_def
          two_row_frame_def one_row_frame_def)
  have fl: "filter_months_to_update False half_stale_storage recombined_output [stage1]
              [january, february] = Inr [february]"
    by (simp add: filter_months_to_update_def nj nf)
  have pm: "process_month False half_stale_storage recombined_output [stage1] february
              = Inr repaired_storage"
    by (simp add: process_month_def month_ids_2023 read_dataframe_def half_stale_storage_def
          combine_all_def write_to_destination_def repaired_storage_def)
  have va: "validate_combined repaired_storage recombined_output [stage1] february = Inr ()"
    by (simp add: month_ids_2023 validate_combined_def first_stage_def
          read_dataframe_metadata_def repaired_storage_def half_stale_storage_def height_def
          two_row_frame_def)
  show ?thesis
    by (simp add: recombine_def fl pm va month_ids_2023)
qed

theorem recombine_second_run_writes_nothing_witness:
  "recombine False False half_stale_storage recombined_output [stage1] [january, february]
     = Inr (repaired_storage, [for_month recombined_output ''2023-02'']) \<and>
   does_dataset_exist repaired_storage (for_month recombined_output (month_format february)) \<and>
   validate_combined repaired_storage recombined_output [stage1] february = Inr () \<and>
   needs_recombining repaired_storage recombined_output [stage1] february = Inr False \<and>
   filter_months_to_update False repaired_storage recombined_output [stage1] [january, february]
     = Inr [] \<and>
   recombine False False repaired_storage recombined_output [stage1] [january, february]
     = Inr (repaired_storage, [])"
  using recombine_second_run_writes_nothing [OF half_stale_first_run, of False] half_stale_first_run
  by simp

end
